theory Spec2Isabelle
  imports Main
begin

section \<open>The network resource of the Civo Terraform provider\<close>

text \<open>
  A shallow embedding of \<^verbatim>\<open>civo/network/resource_network.go\<close>. The handlers of the
  source mutate two objects they receive by pointer, the resource data \<^verbatim>\<open>d\<close> and the API
  client \<^verbatim>\<open>m\<close>, and talk to the backend through the client. Here a handler takes both
  and returns its diagnostics together with the updated resource data and client. The
  client carries the replies of the backend (the environment of the program) and a log of
  the requests issued so far, in order.
\<close>

subsection \<open>Errors and diagnostics\<close>

text \<open>
  The error values the handlers meet: the distinguished "not found" error of the client
  library, any other error of the backend, an error made by \<^verbatim>\<open>fmt.Errorf\<close> with a fixed
  text, and the two errors of the poller.
\<close>

datatype error =
    DatabaseNetworkNotFoundError
  | BackendError string
  | FmtError string
  | TimeoutError
  | UnexpectedStateError string

text \<open>\<^verbatim>\<open>errors.Is(err, target)\<close> on errors that wrap nothing.\<close>

definition errors_Is :: "error \<Rightarrow> error \<Rightarrow> bool" where
  "errors_Is err target = (err = target)"

text \<open>
  \<^verbatim>\<open>diag.Errorf(format, args...)\<close> is kept symbolic: the format string of the source and
  its arguments. \<^verbatim>\<open>diag.Diagnostics\<close> is a slice; \<^verbatim>\<open>nil\<close> is the empty list.
\<close>

datatype fmt_arg = AStr string | AErr error

datatype diagnostic = DiagErrorf string "fmt_arg list"

type_synonym diagnostics = "diagnostic list"

subsection \<open>Resource state\<close>

text \<open>
  The attributes of the schema declared by \<^verbatim>\<open>ResourceNetwork\<close>, each with the type the
  schema gives it. An attribute that is not set reads as the zero value of its type, as
  \<^verbatim>\<open>d.Get\<close> returns it.
\<close>

record attrs =
  label :: string
  region :: string
  cidr_v4 :: string
  nameservers_v4 :: "string list"
  name :: string
  default_attr :: bool
  vlan_id :: int
  vlan_cidr_v4 :: string
  vlan_gateway_ip_v4 :: string
  vlan_physical_interface :: string
  vlan_allocation_pool_v4_start :: string
  vlan_allocation_pool_v4_end :: string

text \<open>
  \<^verbatim>\<open>schema.ResourceData\<close>: the identifier, the prior state (what \<^verbatim>\<open>HasChange\<close>
  compares against) and the current values (what \<^verbatim>\<open>Get\<close> reads: the planned values,
  overwritten by \<^verbatim>\<open>Set\<close>). No handler calls \<^verbatim>\<open>HasChange\<close> after a \<^verbatim>\<open>Set\<close>.
\<close>

record resource_data =
  ident :: string
  prior :: attrs
  current :: attrs

definition SetId :: "resource_data \<Rightarrow> string \<Rightarrow> resource_data" where
  "SetId d v = d\<lparr>ident := v\<rparr>"

text \<open>\<^verbatim>\<open>d.GetOk("region")\<close>: the value, and whether it differs from the zero value.\<close>

definition GetOk_region :: "resource_data \<Rightarrow> string \<times> bool" where
  "GetOk_region d = (region (current d), region (current d) \<noteq> [])"

text \<open>
  \<^verbatim>\<open>schema.ResourceDiff\<close>, as the diff-customization hook sees it: the identifier, and
  the old and the new value of every attribute.
\<close>

record resource_diff =
  diff_ident :: string
  diff_old :: attrs
  diff_new :: attrs

text \<open>\<^verbatim>\<open>d.HasChange("cidr_v4")\<close> on a \<^verbatim>\<open>ResourceDiff\<close>.\<close>

definition diff_HasChange_cidr_v4 :: "resource_diff \<Rightarrow> bool" where
  "diff_HasChange_cidr_v4 d = (cidr_v4 (diff_old d) \<noteq> cidr_v4 (diff_new d))"

subsection \<open>The client library\<close>

text \<open>
  The structs of the \<^verbatim>\<open>civogo\<close> library, with the fields the handlers read or write.
  The library is not part of the repository; the types are declared after their use in
  the source. A field whose name two structs share is prefixed in all but one of them.
\<close>

record Network =
  ID :: string
  Name :: string
  Default :: bool
  CIDR :: string
  Label :: string
  NameserversV4 :: "string list"

text \<open>\<^verbatim>\<open>civogo.Network{}\<close>, the zero value.\<close>

definition zeroNetwork :: Network where
  "zeroNetwork =
     \<lparr>ID = [], Name = [], Default = False, CIDR = [], Label = [], NameserversV4 = []\<rparr>"

record NetworkResult =
  nr_ID :: string
  nr_Label :: string
  nr_Result :: string

record SimpleResponse =
  Result :: string

record VLANConnectConfig =
  VlanID :: int
  PhysicalInterface :: string
  CIDRv4 :: string
  GatewayIPv4 :: string
  AllocationPoolV4Start :: string
  AllocationPoolV4End :: string

text \<open>\<^verbatim>\<open>VLanConfig\<close> is a pointer in the source: \<open>None\<close> is \<^verbatim>\<open>nil\<close>.\<close>

record NetworkConfig =
  cfg_Label :: string
  cfg_CIDRv4 :: string
  cfg_Region :: string
  cfg_NameserversV4 :: "string list"
  cfg_VLanConfig :: "VLANConnectConfig option"

record FirewallConfig =
  fw_Name :: string
  fw_NetworkID :: string
  fw_Region :: string

text \<open>The requests a handler can send to the backend.\<close>

datatype api_call =
    CallCreateNetwork NetworkConfig
  | CallNewFirewall FirewallConfig
  | CallListNetworks
  | CallRenameNetwork string string
  | CallUpdateNetwork string NetworkConfig
  | CallDeleteNetwork string
  | CallGetNetwork string

text \<open>
  \<^verbatim>\<open>civogo.Client\<close>: its mutable \<^verbatim>\<open>Region\<close>, the log of the requests sent through it,
  and the backend behind it, given by its replies. Every handler but Delete sends each
  kind of request at most once, so a reply is a function of the request. The Delete
  handler repeats its requests, once per poll, so the replies to \<^verbatim>\<open>DeleteNetwork\<close> and
  \<^verbatim>\<open>GetNetwork\<close> also depend on the number of the poll (from 0) that sends them.
  \<^verbatim>\<open>ListNetworks\<close> returns a slice and an error, either of which can be \<^verbatim>\<open>nil\<close>.
\<close>

record client =
  Region :: string
  calls :: "api_call list"
  replyCreateNetwork :: "NetworkConfig \<Rightarrow> error + NetworkResult"
  replyNewFirewall :: "FirewallConfig \<Rightarrow> error option"
  replyListNetworks :: "Network list option \<times> error option"
  replyRenameNetwork :: "string \<Rightarrow> string \<Rightarrow> error option"
  replyUpdateNetwork :: "string \<Rightarrow> NetworkConfig \<Rightarrow> error option"
  replyDeleteNetwork :: "nat \<Rightarrow> string \<Rightarrow> error + SimpleResponse"
  replyGetNetwork :: "nat \<Rightarrow> string \<Rightarrow> error + Network"

definition sent :: "client \<Rightarrow> api_call \<Rightarrow> client" where
  "sent c call = c\<lparr>calls := calls c @ [call]\<rparr>"

definition CreateNetwork :: "client \<Rightarrow> NetworkConfig \<Rightarrow> (error + NetworkResult) \<times> client" where
  "CreateNetwork c configs = (replyCreateNetwork c configs, sent c (CallCreateNetwork configs))"

definition NewFirewall :: "client \<Rightarrow> FirewallConfig \<Rightarrow> error option \<times> client" where
  "NewFirewall c firewallConfig =
     (replyNewFirewall c firewallConfig, sent c (CallNewFirewall firewallConfig))"

definition ListNetworks :: "client \<Rightarrow> (Network list option \<times> error option) \<times> client" where
  "ListNetworks c = (replyListNetworks c, sent c CallListNetworks)"

definition RenameNetwork :: "client \<Rightarrow> string \<Rightarrow> string \<Rightarrow> error option \<times> client" where
  "RenameNetwork c lbl nid = (replyRenameNetwork c lbl nid, sent c (CallRenameNetwork lbl nid))"

definition UpdateNetwork :: "client \<Rightarrow> string \<Rightarrow> NetworkConfig \<Rightarrow> error option \<times> client" where
  "UpdateNetwork c nid nc = (replyUpdateNetwork c nid nc, sent c (CallUpdateNetwork nid nc))"

definition DeleteNetwork :: "client \<Rightarrow> nat \<Rightarrow> string \<Rightarrow> (error + SimpleResponse) \<times> client" where
  "DeleteNetwork c poll nid = (replyDeleteNetwork c poll nid, sent c (CallDeleteNetwork nid))"

definition GetNetwork :: "client \<Rightarrow> nat \<Rightarrow> string \<Rightarrow> (error + Network) \<times> client" where
  "GetNetwork c poll nid = (replyGetNetwork c poll nid, sent c (CallGetNetwork nid))"

text \<open>
  The opening lines of every handler:
  \<^verbatim>\<open>if region, ok := d.GetOk("region"); ok { apiClient.Region = region.(string) }\<close>.
\<close>

definition overwriteRegion :: "resource_data \<Rightarrow> client \<Rightarrow> client" where
  "overwriteRegion d m =
     (case GetOk_region d of
        (r, ok) \<Rightarrow> if ok then m\<lparr>Region := r\<rparr> else m)"

subsection \<open>Reading a network\<close>

text \<open>
  The loop of \<^verbatim>\<open>resourceNetworkRead\<close> over the listed networks: it does not stop at a
  match, so the last network with the identifier wins, and \<^verbatim>\<open>CurrentNetwork\<close> keeps its
  zero value when there is none.
\<close>

fun findNetwork :: "string \<Rightarrow> Network \<Rightarrow> Network list \<Rightarrow> Network" where
  "findNetwork nid CurrentNetwork [] = CurrentNetwork"
| "findNetwork nid CurrentNetwork (net # resp) =
     findNetwork nid (if ID net = nid then net else CurrentNetwork) resp"

text \<open>The six \<^verbatim>\<open>d.Set\<close> calls that end \<^verbatim>\<open>resourceNetworkRead\<close>.\<close>

definition setNetworkFields :: "resource_data \<Rightarrow> string \<Rightarrow> Network \<Rightarrow> resource_data" where
  "setNetworkFields d clientRegion CurrentNetwork =
     d\<lparr>current := (current d)
         \<lparr>name := Name CurrentNetwork,
          region := clientRegion,
          label := Label CurrentNetwork,
          default_attr := Default CurrentNetwork,
          cidr_v4 := CIDR CurrentNetwork,
          nameservers_v4 := NameserversV4 CurrentNetwork\<rparr>\<rparr>"

definition resourceNetworkRead ::
    "resource_data \<Rightarrow> client \<Rightarrow> diagnostics \<times> resource_data \<times> client" where
  "resourceNetworkRead d m =
     (let apiClient = overwriteRegion d m in
      case ListNetworks apiClient of
        ((resp, Some err), apiClient1) \<Rightarrow>
          if resp = None then ([], SetId d [], apiClient1)
          else ([DiagErrorf ''[ERR] failed to list the network: %s'' [AErr err]], d, apiClient1)
      | ((resp, None), apiClient1) \<Rightarrow>
          let CurrentNetwork =
                findNetwork (ident d) zeroNetwork (case resp of None \<Rightarrow> [] | Some nets \<Rightarrow> nets)
          in ([], setNetworkFields d (Region apiClient1) CurrentNetwork, apiClient1))"

subsection \<open>Creating a network\<close>

text \<open>
  \<^verbatim>\<open>expandStringList\<close> takes an \<^verbatim>\<open>interface{}\<close>: it keeps the strings of a list and
  returns nothing for any other value. \<open>iface\<close> has the dynamic values it can meet.
\<close>

datatype iface = IString string | IInt int | IBool bool | IList "iface list"

fun appendStrings :: "string list \<Rightarrow> iface list \<Rightarrow> string list" where
  "appendStrings result [] = result"
| "appendStrings result (item # inputList) =
     appendStrings (case item of IString str \<Rightarrow> result @ [str] | _ \<Rightarrow> result) inputList"

fun expandStringList :: "iface \<Rightarrow> string list" where
  "expandStringList (IList inputList) = appendStrings [] inputList"
| "expandStringList _ = []"

text \<open>\<^verbatim>\<open>d.Get("nameservers_v4")\<close>: a list attribute reads as a list of its elements.\<close>

definition Get_nameservers_v4 :: "resource_data \<Rightarrow> iface" where
  "Get_nameservers_v4 d = IList (map IString (nameservers_v4 (current d)))"

definition createDefaultFirewall :: "client \<Rightarrow> string \<Rightarrow> string \<Rightarrow> error option \<times> client" where
  "createDefaultFirewall apiClient networkID networkName =
     (let firewallConfig =
            \<lparr>fw_Name = networkName @ ''-default'',
             fw_NetworkID = networkID,
             fw_Region = Region apiClient\<rparr>
      in NewFirewall apiClient firewallConfig)"

text \<open>The request \<^verbatim>\<open>resourceNetworkCreate\<close> builds from the resource data.\<close>

definition createConfigs :: "resource_data \<Rightarrow> client \<Rightarrow> NetworkConfig" where
  "createConfigs d apiClient =
     (let vlanConfig =
            \<lparr>VlanID = vlan_id (current d),
             PhysicalInterface = vlan_physical_interface (current d),
             CIDRv4 = vlan_cidr_v4 (current d),
             GatewayIPv4 = vlan_gateway_ip_v4 (current d),
             AllocationPoolV4Start = vlan_allocation_pool_v4_start (current d),
             AllocationPoolV4End = vlan_allocation_pool_v4_end (current d)\<rparr>;
          configs =
            \<lparr>cfg_Label = label (current d),
             cfg_CIDRv4 = cidr_v4 (current d),
             cfg_Region = Region apiClient,
             cfg_NameserversV4 = expandStringList (Get_nameservers_v4 d),
             cfg_VLanConfig = None\<rparr>
      in if VlanID vlanConfig > 0 then configs\<lparr>cfg_VLanConfig := Some vlanConfig\<rparr>
         else configs)"

text \<open>
  \<^verbatim>\<open>utils.ParseErrorResponse\<close> is not among the sources and no property below depends on
  it: the handler takes it as the parameter \<open>parseError\<close>, which maps an error to the
  friendlier one when the error's text parses, and to \<open>None\<close> when it does not.
\<close>

definition resourceNetworkCreate ::
    "(error \<Rightarrow> error option) \<Rightarrow> resource_data \<Rightarrow> client
       \<Rightarrow> diagnostics \<times> resource_data \<times> client" where
  "resourceNetworkCreate parseError d m =
     (let apiClient = overwriteRegion d m;
          configs = createConfigs d apiClient in
      case CreateNetwork apiClient configs of
        (Inl err, apiClient1) \<Rightarrow>
          let err1 = (case parseError err of Some customErr \<Rightarrow> customErr | None \<Rightarrow> err)
          in ([DiagErrorf ''[ERR] failed to create network: %s'' [AErr err1]], d, apiClient1)
      | (Inr network, apiClient1) \<Rightarrow>
          let d1 = SetId d (nr_ID network) in
          case createDefaultFirewall apiClient1 (nr_ID network) (nr_Label network) of
            (Some err, apiClient2) \<Rightarrow>
              ([DiagErrorf ''[ERR] failed to create a new firewall for the network %s: %s''
                  [AStr (label (current d1)), AErr err]], d1, apiClient2)
          | (None, apiClient2) \<Rightarrow> resourceNetworkRead d1 apiClient2)"

subsection \<open>Updating a network\<close>

text \<open>\<^verbatim>\<open>d.HasChange(key)\<close> for the two keys the Update handler asks about.\<close>

definition HasChange_label :: "resource_data \<Rightarrow> bool" where
  "HasChange_label d = (label (prior d) \<noteq> label (current d))"

definition HasChange_nameservers_v4 :: "resource_data \<Rightarrow> bool" where
  "HasChange_nameservers_v4 d = (nameservers_v4 (prior d) \<noteq> nameservers_v4 (current d))"

text \<open>The second half of \<^verbatim>\<open>resourceNetworkUpdate\<close>, from \<^verbatim>\<open>networkConfig\<close> on.\<close>

definition updateNameservers ::
    "resource_data \<Rightarrow> client \<Rightarrow> diagnostics \<times> resource_data \<times> client" where
  "updateNameservers d apiClient =
     (let networkConfig =
            \<lparr>cfg_Label = [],
             cfg_CIDRv4 = [],
             cfg_Region = Region apiClient,
             cfg_NameserversV4 = expandStringList (Get_nameservers_v4 d),
             cfg_VLanConfig = None\<rparr>
      in if HasChange_nameservers_v4 d then
           (case UpdateNetwork apiClient (ident d) networkConfig of
              (Some err, apiClient1) \<Rightarrow>
                ([DiagErrorf
                    ''[ERR] An error occurred while updating the nameservers for the network %s: %s''
                    [AStr (ident d), AErr err]], d, apiClient1)
            | (None, apiClient1) \<Rightarrow> resourceNetworkRead d apiClient1)
         else resourceNetworkRead d apiClient)"

definition resourceNetworkUpdate ::
    "resource_data \<Rightarrow> client \<Rightarrow> diagnostics \<times> resource_data \<times> client" where
  "resourceNetworkUpdate d m =
     (let apiClient = overwriteRegion d m in
      if HasChange_label d then
        (case RenameNetwork apiClient (label (current d)) (ident d) of
           (Some err, apiClient1) \<Rightarrow>
             ([DiagErrorf ''[ERR] An error occurred while renaming the network %s''
                 [AStr (ident d)]], d, apiClient1)
         | (None, apiClient1) \<Rightarrow> updateNameservers d apiClient1)
      else updateNameservers d apiClient)"

subsection \<open>Deleting a network\<close>

text \<open>
  What a \<^verbatim>\<open>Refresh\<close> function returns first, an \<^verbatim>\<open>interface{}\<close>: the handler's closure
  returns \<^verbatim>\<open>0\<close>, \<^verbatim>\<open>nil\<close> or the reply to the delete request.
\<close>

datatype refresh_result = RNil | RInt int | RResp SimpleResponse

type_synonym refresh = "nat \<Rightarrow> client \<Rightarrow> (refresh_result \<times> string \<times> error option) \<times> client"

text \<open>
  \<^verbatim>\<open>retry.StateChangeConf\<close>, with the fields the handler sets. The durations are in
  seconds; they and \<^verbatim>\<open>NotFoundChecks\<close> are kept as the handler sets them, and the
  poller below reads none of the four.
\<close>

record StateChangeConf =
  Pending :: "string list"
  Target :: "string list"
  Refresh :: refresh
  Timeout :: nat
  Delay :: nat
  MinTimeout :: nat
  NotFoundChecks :: nat

text \<open>
  The closure the handler passes as \<^verbatim>\<open>Refresh\<close>. It captures \<^verbatim>\<open>apiClient\<close> and
  \<^verbatim>\<open>networkID\<close>; \<open>poll\<close> is the number of the poll that runs it, which selects the
  replies of the backend.
\<close>

definition deleteRefresh :: "string \<Rightarrow> refresh" where
  "deleteRefresh networkID poll apiClient =
     (case DeleteNetwork apiClient poll networkID of
        (Inl err, apiClient1) \<Rightarrow> ((RInt 0, [], Some err), apiClient1)
      | (Inr resp, apiClient1) \<Rightarrow>
          if Result resp = ''success'' then
            (case GetNetwork apiClient1 poll networkID of
               (Inl err, apiClient2) \<Rightarrow>
                 if errors_Is err DatabaseNetworkNotFoundError
                 then ((RResp resp, ''deleted'', None), apiClient2)
                 else ((RNil, [], Some err), apiClient2)
             | (Inr _, apiClient2) \<Rightarrow> ((RResp resp, ''deleting'', None), apiClient2))
          else ((RResp resp, ''exists'', None), apiClient1))"

text \<open>
  Modelled from the spec: \<^verbatim>\<open>WaitForStateContext\<close> of the plugin SDK's \<^verbatim>\<open>retry\<close> package,
  which is not among the sources. The spec (4.1, 7) describes it as retry until the target
  state: run the refresh; an error aborts with that error; a target state is success; a
  pending state is retried after a delay; the whole is bounded by a timeout, whose expiry
  is reported as a failure of its own. A state that is neither target nor pending is an
  error as well. Time is not modelled: \<open>window\<close> is the number of polls that the
  timeout leaves room for, and \<open>poll\<close> counts the polls done.
\<close>

fun WaitForStateContext ::
    "StateChangeConf \<Rightarrow> nat \<Rightarrow> nat \<Rightarrow> client \<Rightarrow> (error + refresh_result) \<times> client" where
  "WaitForStateContext conf 0 poll c = (Inl TimeoutError, c)"
| "WaitForStateContext conf (Suc window) poll c =
     (case Refresh conf poll c of
        ((res, currentState, Some err), c1) \<Rightarrow> (Inl err, c1)
      | ((res, currentState, None), c1) \<Rightarrow>
          if currentState \<in> set (Target conf) then (Inr res, c1)
          else if currentState \<in> set (Pending conf)
          then WaitForStateContext conf window (Suc poll) c1
          else (Inl (UnexpectedStateError currentState), c1))"

definition deleteStateConf :: "string \<Rightarrow> StateChangeConf" where
  "deleteStateConf networkID =
     \<lparr>Pending = [''deleting'', ''exists''],
      Target = [''deleted''],
      Refresh = deleteRefresh networkID,
      Timeout = 60 * 60,
      Delay = 5,
      MinTimeout = 3,
      NotFoundChecks = 10\<rparr>"

text \<open>
  The handler. Its first argument is the \<open>window\<close> of the poller: how many polls the
  backend lets finish before the timeout of the configuration expires.
\<close>

definition resourceNetworkDelete ::
    "nat \<Rightarrow> resource_data \<Rightarrow> client \<Rightarrow> diagnostics \<times> resource_data \<times> client" where
  "resourceNetworkDelete window d m =
     (let apiClient = overwriteRegion d m;
          networkID = ident d in
      case WaitForStateContext (deleteStateConf networkID) window 0 apiClient of
        (Inl err, apiClient1) \<Rightarrow>
          ([DiagErrorf ''error waiting for network (%s) to be deleted: %s''
              [AStr networkID, AErr err]], d, apiClient1)
      | (Inr _, apiClient1) \<Rightarrow> ([], d, apiClient1))"

subsection \<open>The diff-customization hook\<close>

definition customizeDiffNetwork :: "resource_diff \<Rightarrow> error option" where
  "customizeDiffNetwork d =
     (if diff_ident d \<noteq> [] \<and> diff_HasChange_cidr_v4 d
      then Some (FmtError ''the 'cidr_v4' field is immutable'')
      else None)"

subsection \<open>A concrete backend\<close>

text \<open>
  A network, the resource data of a configuration for it, and a client whose backend
  accepts every request, lists that network, and reports it gone from the third poll of a
  delete on. The examples below run the handlers on them.
\<close>

definition exampleNetwork :: Network where
  "exampleNetwork =
     \<lparr>ID = ''net-1'', Name = ''cust-mynet'', Default = False, CIDR = ''10.0.0.0/24'',
      Label = ''mynet'', NameserversV4 = [''8.8.8.8'']\<rparr>"

definition exampleAttrs :: attrs where
  "exampleAttrs =
     \<lparr>label = ''mynet'', region = [], cidr_v4 = ''10.0.0.0/24'',
      nameservers_v4 = [''1.1.1.1''], name = [], default_attr = False, vlan_id = 0,
      vlan_cidr_v4 = [], vlan_gateway_ip_v4 = [], vlan_physical_interface = [],
      vlan_allocation_pool_v4_start = [], vlan_allocation_pool_v4_end = []\<rparr>"

definition exampleData :: resource_data where
  "exampleData = \<lparr>ident = ''net-1'', prior = exampleAttrs, current = exampleAttrs\<rparr>"

definition exampleClient :: client where
  "exampleClient =
     \<lparr>Region = ''LON1'',
      calls = [],
      replyCreateNetwork =
        (\<lambda>configs. Inr \<lparr>nr_ID = ''net-1'', nr_Label = cfg_Label configs, nr_Result = ''success''\<rparr>),
      replyNewFirewall = (\<lambda>firewallConfig. None),
      replyListNetworks = (Some [exampleNetwork], None),
      replyRenameNetwork = (\<lambda>lbl nid. None),
      replyUpdateNetwork = (\<lambda>nid nc. None),
      replyDeleteNetwork = (\<lambda>poll nid. Inr \<lparr>Result = ''success''\<rparr>),
      replyGetNetwork =
        (\<lambda>poll nid. if poll < 2 then Inr exampleNetwork else Inl DatabaseNetworkNotFoundError)\<rparr>"

section \<open>Properties\<close>

subsection \<open>The client and its log\<close>

lemma sent_fields:
  "calls (sent c call) = calls c @ [call]"
  "Region (sent c call) = Region c"
  "replyCreateNetwork (sent c call) = replyCreateNetwork c"
  "replyNewFirewall (sent c call) = replyNewFirewall c"
  "replyListNetworks (sent c call) = replyListNetworks c"
  "replyRenameNetwork (sent c call) = replyRenameNetwork c"
  "replyUpdateNetwork (sent c call) = replyUpdateNetwork c"
  "replyDeleteNetwork (sent c call) = replyDeleteNetwork c"
  "replyGetNetwork (sent c call) = replyGetNetwork c"
  by (simp_all add: sent_def)

lemma overwriteRegion_fields:
  "calls (overwriteRegion d m) = calls m"
  "Region (overwriteRegion d m) = (if region (current d) \<noteq> [] then region (current d) else Region m)"
  "replyCreateNetwork (overwriteRegion d m) = replyCreateNetwork m"
  "replyNewFirewall (overwriteRegion d m) = replyNewFirewall m"
  "replyListNetworks (overwriteRegion d m) = replyListNetworks m"
  "replyRenameNetwork (overwriteRegion d m) = replyRenameNetwork m"
  "replyUpdateNetwork (overwriteRegion d m) = replyUpdateNetwork m"
  "replyDeleteNetwork (overwriteRegion d m) = replyDeleteNetwork m"
  "replyGetNetwork (overwriteRegion d m) = replyGetNetwork m"
  by (simp_all add: overwriteRegion_def GetOk_region_def)

subsection \<open>One poll of the delete poller\<close>

text \<open>The closure and one turn of the loop, by the replies of the backend.\<close>

lemma deleteRefresh_delete_error:
  "replyDeleteNetwork c p nid = Inl err \<Longrightarrow>
   deleteRefresh nid p c = ((RInt 0, [], Some err), sent c (CallDeleteNetwork nid))"
  by (simp add: deleteRefresh_def DeleteNetwork_def)

lemma deleteRefresh_exists:
  "replyDeleteNetwork c p nid = Inr resp \<Longrightarrow> Result resp \<noteq> ''success'' \<Longrightarrow>
   deleteRefresh nid p c = ((RResp resp, ''exists'', None), sent c (CallDeleteNetwork nid))"
  by (simp add: deleteRefresh_def DeleteNetwork_def)

lemma deleteRefresh_deleted:
  "replyDeleteNetwork c p nid = Inr resp \<Longrightarrow> Result resp = ''success'' \<Longrightarrow>
   replyGetNetwork c p nid = Inl DatabaseNetworkNotFoundError \<Longrightarrow>
   deleteRefresh nid p c =
     ((RResp resp, ''deleted'', None), sent (sent c (CallDeleteNetwork nid)) (CallGetNetwork nid))"
  by (simp add: deleteRefresh_def DeleteNetwork_def GetNetwork_def sent_fields errors_Is_def)

lemma deleteRefresh_get_error:
  "replyDeleteNetwork c p nid = Inr resp \<Longrightarrow> Result resp = ''success'' \<Longrightarrow>
   replyGetNetwork c p nid = Inl err \<Longrightarrow> err \<noteq> DatabaseNetworkNotFoundError \<Longrightarrow>
   deleteRefresh nid p c =
     ((RNil, [], Some err), sent (sent c (CallDeleteNetwork nid)) (CallGetNetwork nid))"
  by (simp add: deleteRefresh_def DeleteNetwork_def GetNetwork_def sent_fields errors_Is_def)

lemma deleteRefresh_deleting:
  "replyDeleteNetwork c p nid = Inr resp \<Longrightarrow> Result resp = ''success'' \<Longrightarrow>
   replyGetNetwork c p nid = Inr net \<Longrightarrow>
   deleteRefresh nid p c =
     ((RResp resp, ''deleting'', None), sent (sent c (CallDeleteNetwork nid)) (CallGetNetwork nid))"
  by (simp add: deleteRefresh_def DeleteNetwork_def GetNetwork_def sent_fields)

lemma conf_fields:
  "Refresh (deleteStateConf nid) = deleteRefresh nid"
  "Target (deleteStateConf nid) = [''deleted'']"
  "Pending (deleteStateConf nid) = [''deleting'', ''exists'']"
  by (simp_all add: deleteStateConf_def)

lemma wait_deleted:
  assumes "replyDeleteNetwork c p nid = Inr resp" "Result resp = ''success''"
    "replyGetNetwork c p nid = Inl DatabaseNetworkNotFoundError"
  shows "WaitForStateContext (deleteStateConf nid) (Suc w) p c =
     (Inr (RResp resp), sent (sent c (CallDeleteNetwork nid)) (CallGetNetwork nid))"
  by (simp add: conf_fields deleteRefresh_deleted [OF assms])

lemma wait_get_error:
  assumes "replyDeleteNetwork c p nid = Inr resp" "Result resp = ''success''"
    "replyGetNetwork c p nid = Inl err" "err \<noteq> DatabaseNetworkNotFoundError"
  shows "WaitForStateContext (deleteStateConf nid) (Suc w) p c =
     (Inl err, sent (sent c (CallDeleteNetwork nid)) (CallGetNetwork nid))"
  by (simp add: conf_fields deleteRefresh_get_error [OF assms])

lemma wait_deleting:
  assumes "replyDeleteNetwork c p nid = Inr resp" "Result resp = ''success''"
    "replyGetNetwork c p nid = Inr net"
  shows "WaitForStateContext (deleteStateConf nid) (Suc w) p c =
     WaitForStateContext (deleteStateConf nid) w (Suc p)
       (sent (sent c (CallDeleteNetwork nid)) (CallGetNetwork nid))"
  by (simp add: conf_fields deleteRefresh_deleting [OF assms])

lemma wait_exists:
  assumes "replyDeleteNetwork c p nid = Inr resp" "Result resp \<noteq> ''success''"
  shows "WaitForStateContext (deleteStateConf nid) (Suc w) p c =
     WaitForStateContext (deleteStateConf nid) w (Suc p) (sent c (CallDeleteNetwork nid))"
  by (simp add: conf_fields deleteRefresh_exists [OF assms])

lemma wait_delete_error:
  assumes "replyDeleteNetwork c p nid = Inl err"
  shows "WaitForStateContext (deleteStateConf nid) (Suc w) p c =
     (Inl err, sent c (CallDeleteNetwork nid))"
  by (simp add: conf_fields deleteRefresh_delete_error [OF assms])


subsection \<open>Runs of the delete poller\<close>

lemma sent_replies_eq:
  "replyDeleteNetwork (sent (sent c a) b) = replyDeleteNetwork c"
  "replyGetNetwork (sent (sent c a) b) = replyGetNetwork c"
  by (simp_all add: sent_fields)

lemma sent_sent: "sent (sent c a) b = c\<lparr>calls := calls c @ [a, b]\<rparr>"
  by (simp add: sent_def)

lemma wait_deleting_run:
  assumes "\<forall>i. p \<le> i \<and> i < p + k \<longrightarrow>
      (\<exists>resp. replyDeleteNetwork c i nid = Inr resp \<and> Result resp = ''success'')
      \<and> (\<exists>net. replyGetNetwork c i nid = Inr net)"
  shows "WaitForStateContext (deleteStateConf nid) (k + w) p c =
     WaitForStateContext (deleteStateConf nid) w (p + k)
       (c\<lparr>calls := calls c @ concat (replicate k [CallDeleteNetwork nid, CallGetNetwork nid])\<rparr>)"
  using assms
proof (induction k arbitrary: p c)
  case 0
  then show ?case by simp
next
  case (Suc k)
  let ?c1 = "sent (sent c (CallDeleteNetwork nid)) (CallGetNetwork nid)"
  from Suc.prems [rule_format, of p] obtain resp net where
    here: "replyDeleteNetwork c p nid = Inr resp" "Result resp = ''success''"
      "replyGetNetwork c p nid = Inr net"
    by auto
  have later: "\<forall>i. Suc p \<le> i \<and> i < Suc p + k \<longrightarrow>
      (\<exists>resp. replyDeleteNetwork ?c1 i nid = Inr resp \<and> Result resp = ''success'')
      \<and> (\<exists>net. replyGetNetwork ?c1 i nid = Inr net)"
    unfolding sent_replies_eq using Suc.prems by simp
  have log: "?c1\<lparr>calls := calls ?c1 @ concat (replicate k [CallDeleteNetwork nid, CallGetNetwork nid])\<rparr>
      = c\<lparr>calls := calls c @ concat (replicate (Suc k) [CallDeleteNetwork nid, CallGetNetwork nid])\<rparr>"
    by (simp add: sent_def)
  have "WaitForStateContext (deleteStateConf nid) (Suc k + w) p c =
      WaitForStateContext (deleteStateConf nid) (Suc (k + w)) p c"
    by (simp only: add_Suc)
  also have "\<dots> = WaitForStateContext (deleteStateConf nid) (k + w) (Suc p) ?c1"
    by (rule wait_deleting [OF here])
  also have "\<dots> = WaitForStateContext (deleteStateConf nid) w (Suc p + k)
      (?c1\<lparr>calls := calls ?c1 @ concat (replicate k [CallDeleteNetwork nid, CallGetNetwork nid])\<rparr>)"
    by (rule Suc.IH [OF later])
  also have "\<dots> = WaitForStateContext (deleteStateConf nid) w (p + Suc k)
      (c\<lparr>calls := calls c @ concat (replicate (Suc k) [CallDeleteNetwork nid, CallGetNetwork nid])\<rparr>)"
    by (simp only: log add_Suc add_Suc_right)
  finally show ?case .
qed

lemma wait_no_success:
  assumes "\<forall>i. p \<le> i \<and> i < p + w \<longrightarrow> replyGetNetwork c i nid \<noteq> Inl DatabaseNetworkNotFoundError"
  shows "\<exists>err. fst (WaitForStateContext (deleteStateConf nid) w p c) = Inl err"
  using assms
proof (induction w arbitrary: p c)
  case 0
  then show ?case by simp
next
  case (Suc w)
  have here: "replyGetNetwork c p nid \<noteq> Inl DatabaseNetworkNotFoundError"
    using Suc.prems by simp
  have later: "\<And>c1. replyGetNetwork c1 = replyGetNetwork c \<Longrightarrow>
      \<exists>err. fst (WaitForStateContext (deleteStateConf nid) w (Suc p) c1) = Inl err"
    using Suc.prems by (intro Suc.IH) simp
  show ?case
  proof (cases "replyDeleteNetwork c p nid")
    case (Inl err)
    then show ?thesis by (simp add: wait_delete_error del: WaitForStateContext.simps)
  next
    case (Inr resp)
    show ?thesis
    proof (cases "Result resp = ''success''")
      case False
      with Inr later [of "sent c (CallDeleteNetwork nid)"] show ?thesis
        by (simp add: wait_exists sent_fields del: WaitForStateContext.simps)
    next
      case True
      show ?thesis
      proof (cases "replyGetNetwork c p nid")
        case (Inl err)
        with here have "err \<noteq> DatabaseNetworkNotFoundError" by simp
        with Inr True Inl show ?thesis
          by (simp add: wait_get_error del: WaitForStateContext.simps)
      next
        case net: (Inr net)
        with Inr True later [of "sent (sent c (CallDeleteNetwork nid)) (CallGetNetwork nid)"]
        show ?thesis
          by (simp add: wait_deleting sent_fields del: WaitForStateContext.simps)
      qed
    qed
  qed
qed

lemma wait_timeout:
  assumes "\<forall>i. p \<le> i \<and> i < p + w \<longrightarrow>
      (\<exists>resp. replyDeleteNetwork c i nid = Inr resp \<and>
         (Result resp = ''success'' \<longrightarrow> (\<exists>net. replyGetNetwork c i nid = Inr net)))"
  shows "fst (WaitForStateContext (deleteStateConf nid) w p c) = Inl TimeoutError"
  using assms
proof (induction w arbitrary: p c)
  case 0
  then show ?case by simp
next
  case (Suc w)
  from Suc.prems [rule_format, of p] obtain resp where
    del: "replyDeleteNetwork c p nid = Inr resp"
    and get: "Result resp = ''success'' \<longrightarrow> (\<exists>net. replyGetNetwork c p nid = Inr net)"
    by auto
  have later: "\<And>c1. replyDeleteNetwork c1 = replyDeleteNetwork c \<Longrightarrow>
      replyGetNetwork c1 = replyGetNetwork c \<Longrightarrow>
      fst (WaitForStateContext (deleteStateConf nid) w (Suc p) c1) = Inl TimeoutError"
    using Suc.prems by (intro Suc.IH) simp
  show ?case
  proof (cases "Result resp = ''success''")
    case False
    with del later [of "sent c (CallDeleteNetwork nid)"] show ?thesis
      by (simp add: wait_exists sent_fields del: WaitForStateContext.simps)
  next
    case True
    with get obtain net where "replyGetNetwork c p nid = Inr net" by blast
    with del True later [of "sent (sent c (CallDeleteNetwork nid)) (CallGetNetwork nid)"]
    show ?thesis
      by (simp add: wait_deleting sent_fields del: WaitForStateContext.simps)
  qed
qed

lemma wait_exists_run:
  assumes "\<forall>i. p \<le> i \<and> i < p + k \<longrightarrow>
      (\<exists>resp. replyDeleteNetwork c i nid = Inr resp \<and> Result resp \<noteq> ''success'')"
  shows "WaitForStateContext (deleteStateConf nid) (k + w) p c =
     WaitForStateContext (deleteStateConf nid) w (p + k)
       (c\<lparr>calls := calls c @ replicate k (CallDeleteNetwork nid)\<rparr>)"
  using assms
proof (induction k arbitrary: p c)
  case 0
  then show ?case by simp
next
  case (Suc k)
  let ?c1 = "sent c (CallDeleteNetwork nid)"
  from Suc.prems [rule_format, of p] obtain resp where
    here: "replyDeleteNetwork c p nid = Inr resp" "Result resp \<noteq> ''success''"
    by auto
  have later: "\<forall>i. Suc p \<le> i \<and> i < Suc p + k \<longrightarrow>
      (\<exists>resp. replyDeleteNetwork ?c1 i nid = Inr resp \<and> Result resp \<noteq> ''success'')"
    unfolding sent_fields using Suc.prems by simp
  have log: "?c1\<lparr>calls := calls ?c1 @ replicate k (CallDeleteNetwork nid)\<rparr>
      = c\<lparr>calls := calls c @ replicate (Suc k) (CallDeleteNetwork nid)\<rparr>"
    by (simp add: sent_def)
  have "WaitForStateContext (deleteStateConf nid) (Suc k + w) p c =
      WaitForStateContext (deleteStateConf nid) (Suc (k + w)) p c"
    by (simp only: add_Suc)
  also have "\<dots> = WaitForStateContext (deleteStateConf nid) (k + w) (Suc p) ?c1"
    by (rule wait_exists [OF here])
  also have "\<dots> = WaitForStateContext (deleteStateConf nid) w (Suc p + k)
      (?c1\<lparr>calls := calls ?c1 @ replicate k (CallDeleteNetwork nid)\<rparr>)"
    by (rule Suc.IH [OF later])
  also have "\<dots> = WaitForStateContext (deleteStateConf nid) w (p + Suc k)
      (c\<lparr>calls := calls c @ replicate (Suc k) (CallDeleteNetwork nid)\<rparr>)"
    by (simp only: log add_Suc add_Suc_right)
  finally show ?case .
qed

subsection \<open>The delete handler and its poller\<close>

lemma resourceNetworkDelete_unfold:
  "resourceNetworkDelete window d m =
     (case WaitForStateContext (deleteStateConf (ident d)) window 0 (overwriteRegion d m) of
        (Inl err, c1) \<Rightarrow>
          ([DiagErrorf ''error waiting for network (%s) to be deleted: %s''
              [AStr (ident d), AErr err]], d, c1)
      | (Inr r, c1) \<Rightarrow> ([], d, c1))"
  by (simp add: resourceNetworkDelete_def Let_def)

lemma resourceNetworkDelete_diag:
  "fst (resourceNetworkDelete window d m) =
     (case fst (WaitForStateContext (deleteStateConf (ident d)) window 0 (overwriteRegion d m)) of
        Inl err \<Rightarrow>
          [DiagErrorf ''error waiting for network (%s) to be deleted: %s''
              [AStr (ident d), AErr err]]
      | Inr r \<Rightarrow> [])"
  by (simp add: resourceNetworkDelete_unfold split: prod.splits sum.splits)

lemma resourceNetworkDelete_calls:
  "calls (snd (snd (resourceNetworkDelete window d m))) =
     calls (snd (WaitForStateContext (deleteStateConf (ident d)) window 0 (overwriteRegion d m)))"
  by (simp add: resourceNetworkDelete_unfold split: prod.splits sum.splits)

lemma concat_replicate_snoc: "concat (replicate k xs) @ xs = concat (replicate (Suc k) xs)"
  by (induction k) simp_all

subsection \<open>The read, create and update handlers\<close>

lemma appendStrings_strings: "appendStrings result (map IString xs) = result @ xs"
  by (induction xs arbitrary: result) simp_all

lemma expandStringList_Get: "expandStringList (Get_nameservers_v4 d) = nameservers_v4 (current d)"
  by (simp add: Get_nameservers_v4_def appendStrings_strings)

lemma findNetwork_unique:
  "(\<forall>n\<in>set nets. ID n = nid \<longrightarrow> n = net) \<Longrightarrow>
   findNetwork nid cur nets = (if \<exists>n\<in>set nets. ID n = nid then net else cur)"
  by (induction nets arbitrary: cur) auto

lemma resourceNetworkRead_listed:
  "replyListNetworks m = (resp, None) \<Longrightarrow>
   resourceNetworkRead d m =
     ([], setNetworkFields d (Region (overwriteRegion d m))
            (findNetwork (ident d) zeroNetwork (case resp of None \<Rightarrow> [] | Some nets \<Rightarrow> nets)),
      sent (overwriteRegion d m) CallListNetworks)"
  by (simp add: resourceNetworkRead_def ListNetworks_def overwriteRegion_fields sent_fields)

lemma resourceNetworkRead_calls:
  "calls (snd (snd (resourceNetworkRead d m))) = calls m @ [CallListNetworks]"
  by (simp add: resourceNetworkRead_def ListNetworks_def overwriteRegion_fields sent_fields Let_def
      split: prod.splits option.splits)

lemma overwriteRegion_idem: "overwriteRegion d (overwriteRegion d m) = overwriteRegion d m"
  by (simp add: overwriteRegion_def GetOk_region_def)

lemma overwriteRegion_SetId: "overwriteRegion (SetId d v) m = overwriteRegion d m"
  by (simp add: overwriteRegion_def GetOk_region_def SetId_def)

lemma overwriteRegion_sent: "overwriteRegion d (sent m call) = sent (overwriteRegion d m) call"
  by (simp add: overwriteRegion_def GetOk_region_def sent_def)

lemma resourceNetworkCreate_ok:
  assumes created: "replyCreateNetwork m (createConfigs d (overwriteRegion d m)) = Inr network"
    and firewall: "replyNewFirewall m
        \<lparr>fw_Name = nr_Label network @ ''-default'', fw_NetworkID = nr_ID network,
         fw_Region = Region (overwriteRegion d m)\<rparr> = None"
  shows "resourceNetworkCreate parseError d m =
      resourceNetworkRead (SetId d (nr_ID network))
        (sent (sent (overwriteRegion d m) (CallCreateNetwork (createConfigs d (overwriteRegion d m))))
           (CallNewFirewall \<lparr>fw_Name = nr_Label network @ ''-default'',
              fw_NetworkID = nr_ID network, fw_Region = Region (overwriteRegion d m)\<rparr>))"
  using assms
  by (simp add: resourceNetworkCreate_def CreateNetwork_def createDefaultFirewall_def
      NewFirewall_def overwriteRegion_fields sent_fields Let_def)

lemma resourceNetworkCreate_calls_created:
  assumes created: "replyCreateNetwork m (createConfigs d (overwriteRegion d m)) = Inr network"
  shows "\<exists>rest. calls (snd (snd (resourceNetworkCreate parseError d m))) =
      calls m @
      [CallCreateNetwork (createConfigs d (overwriteRegion d m)),
       CallNewFirewall
         \<lparr>fw_Name = nr_Label network @ ''-default'', fw_NetworkID = nr_ID network,
          fw_Region = Region (overwriteRegion d m)\<rparr>] @ rest"
proof (cases "replyNewFirewall m
    \<lparr>fw_Name = nr_Label network @ ''-default'', fw_NetworkID = nr_ID network,
     fw_Region = Region (overwriteRegion d m)\<rparr>")
  case None
  have "calls (snd (snd (resourceNetworkCreate parseError d m))) =
      calls m @
      [CallCreateNetwork (createConfigs d (overwriteRegion d m)),
       CallNewFirewall
         \<lparr>fw_Name = nr_Label network @ ''-default'', fw_NetworkID = nr_ID network,
          fw_Region = Region (overwriteRegion d m)\<rparr>] @ [CallListNetworks]"
    by (simp add: resourceNetworkCreate_ok [OF created None] resourceNetworkRead_calls
        sent_fields overwriteRegion_fields)
  then show ?thesis by blast
next
  case (Some err)
  have "calls (snd (snd (resourceNetworkCreate parseError d m))) =
      calls m @
      [CallCreateNetwork (createConfigs d (overwriteRegion d m)),
       CallNewFirewall
         \<lparr>fw_Name = nr_Label network @ ''-default'', fw_NetworkID = nr_ID network,
          fw_Region = Region (overwriteRegion d m)\<rparr>] @ []"
    using created Some
    by (simp add: resourceNetworkCreate_def CreateNetwork_def createDefaultFirewall_def
        NewFirewall_def overwriteRegion_fields sent_fields Let_def)
  then show ?thesis by blast
qed

lemma resourceNetworkCreate_first_call:
  "\<exists>rest. calls (snd (snd (resourceNetworkCreate parseError d m))) =
     calls m @ CallCreateNetwork (createConfigs d (overwriteRegion d m)) # rest"
proof (cases "replyCreateNetwork m (createConfigs d (overwriteRegion d m))")
  case (Inl err)
  then have "calls (snd (snd (resourceNetworkCreate parseError d m))) =
      calls m @ CallCreateNetwork (createConfigs d (overwriteRegion d m)) # []"
    by (simp add: resourceNetworkCreate_def CreateNetwork_def overwriteRegion_fields sent_fields
        Let_def)
  then show ?thesis by blast
next
  case (Inr network)
  from resourceNetworkCreate_calls_created [OF Inr, of parseError]
  obtain rest where "calls (snd (snd (resourceNetworkCreate parseError d m))) =
      calls m @ [CallCreateNetwork (createConfigs d (overwriteRegion d m)),
         CallNewFirewall \<lparr>fw_Name = nr_Label network @ ''-default'',
           fw_NetworkID = nr_ID network, fw_Region = Region (overwriteRegion d m)\<rparr>] @ rest"
    by blast
  then have "calls (snd (snd (resourceNetworkCreate parseError d m))) =
      calls m @ CallCreateNetwork (createConfigs d (overwriteRegion d m)) #
        (CallNewFirewall \<lparr>fw_Name = nr_Label network @ ''-default'',
           fw_NetworkID = nr_ID network, fw_Region = Region (overwriteRegion d m)\<rparr> # rest)"
    by simp
  then show ?thesis by blast
qed

lemma updateNameservers_calls:
  "calls (snd (snd (updateNameservers d c))) =
     calls c @
     (if HasChange_nameservers_v4 d
      then CallUpdateNetwork (ident d)
             \<lparr>cfg_Label = [], cfg_CIDRv4 = [], cfg_Region = Region c,
              cfg_NameserversV4 = nameservers_v4 (current d), cfg_VLanConfig = None\<rparr>
           # (if replyUpdateNetwork c (ident d)
                   \<lparr>cfg_Label = [], cfg_CIDRv4 = [], cfg_Region = Region c,
                    cfg_NameserversV4 = nameservers_v4 (current d), cfg_VLanConfig = None\<rparr> = None
              then [CallListNetworks] else [])
      else [CallListNetworks])"
  by (simp add: updateNameservers_def UpdateNetwork_def Let_def expandStringList_Get
      resourceNetworkRead_calls sent_fields split: option.splits)

lemma resourceNetworkUpdate_calls:
  "calls (snd (snd (resourceNetworkUpdate d m))) =
     calls m @
     (if HasChange_label d
      then CallRenameNetwork (label (current d)) (ident d)
           # (if replyRenameNetwork m (label (current d)) (ident d) = None
              then drop (length (calls m) + 1)
                     (calls (snd (snd (updateNameservers d
                        (sent (overwriteRegion d m)
                           (CallRenameNetwork (label (current d)) (ident d)))))))
              else [])
      else drop (length (calls m)) (calls (snd (snd (updateNameservers d (overwriteRegion d m))))))"
  by (simp add: resourceNetworkUpdate_def RenameNetwork_def Let_def updateNameservers_calls
      sent_fields overwriteRegion_fields split: option.splits)

lemmas run_defs = resourceNetworkDelete_def deleteStateConf_def deleteRefresh_def
  DeleteNetwork_def GetNetwork_def sent_def overwriteRegion_def GetOk_region_def errors_Is_def
  exampleClient_def exampleData_def exampleAttrs_def exampleNetwork_def

subsection \<open>The immutable-field guard\<close>

text \<open>
  C3. The diff-customization hook returns an error exactly when the resource already
  exists (its identifier is not empty) and \<^verbatim>\<open>cidr_v4\<close> differs from its prior value; a
  plan on a resource with an empty identifier passes whatever it does to \<^verbatim>\<open>cidr_v4\<close>.
  The hook reads the diff and nothing else: it receives no client and returns only the
  error, so it sends no request and changes no state.
\<close>

theorem customizeDiffNetwork_error_iff:
  "(customizeDiffNetwork d \<noteq> None) =
     (diff_ident d \<noteq> [] \<and> cidr_v4 (diff_old d) \<noteq> cidr_v4 (diff_new d))
   \<and> customizeDiffNetwork (d\<lparr>diff_ident := []\<rparr>) = None"
  by (simp add: customizeDiffNetwork_def diff_HasChange_cidr_v4_def)

subsection \<open>The refresh step of the delete poller\<close>

text \<open>
  C1. In a poll whose delete request is answered with the result \<^verbatim>\<open>success\<close>: when the
  existence query answers with the "not found" error, the refresh step returns the state
  \<^verbatim>\<open>deleted\<close> without error and the poller ends with success; when it answers with any
  other error, the refresh step returns that error and the poller ends with it; when it
  finds the network, the refresh step returns \<^verbatim>\<open>deleting\<close>, which is not a target state,
  and the poller goes on to the next poll. The handler reports no diagnostics when the
  poller ends with success and one error diagnostic, carrying the poller's error, when it
  does not. The length of the delay between two polls is not part of the model.
\<close>

theorem deleteRefresh_transitions:
  assumes "replyDeleteNetwork c p nid = Inr resp" and "Result resp = ''success''"
  shows "(replyGetNetwork c p nid = Inl DatabaseNetworkNotFoundError \<longrightarrow>
            fst (deleteRefresh nid p c) = (RResp resp, ''deleted'', None)
          \<and> fst (WaitForStateContext (deleteStateConf nid) (Suc w) p c) = Inr (RResp resp))
       \<and> (\<forall>err. replyGetNetwork c p nid = Inl err \<and> err \<noteq> DatabaseNetworkNotFoundError \<longrightarrow>
            fst (deleteRefresh nid p c) = (RNil, [], Some err)
          \<and> fst (WaitForStateContext (deleteStateConf nid) (Suc w) p c) = Inl err)
       \<and> (\<forall>net. replyGetNetwork c p nid = Inr net \<longrightarrow>
            fst (deleteRefresh nid p c) = (RResp resp, ''deleting'', None)
          \<and> ''deleting'' \<notin> set (Target (deleteStateConf nid))
          \<and> WaitForStateContext (deleteStateConf nid) (Suc w) p c =
              WaitForStateContext (deleteStateConf nid) w (Suc p) (snd (deleteRefresh nid p c)))
       \<and> fst (resourceNetworkDelete window d m) =
           (case fst (WaitForStateContext (deleteStateConf (ident d)) window 0
                        (overwriteRegion d m)) of
              Inl err \<Rightarrow>
                [DiagErrorf ''error waiting for network (%s) to be deleted: %s''
                   [AStr (ident d), AErr err]]
            | Inr r \<Rightarrow> [])"
proof (intro conjI impI allI)
  assume "replyGetNetwork c p nid = Inl DatabaseNetworkNotFoundError"
  note h = assms this
  show "fst (deleteRefresh nid p c) = (RResp resp, ''deleted'', None)"
    by (simp add: deleteRefresh_deleted [OF h])
  show "fst (WaitForStateContext (deleteStateConf nid) (Suc w) p c) = Inr (RResp resp)"
    by (simp only: wait_deleted [OF h] fst_conv)
next
  fix err
  assume "replyGetNetwork c p nid = Inl err \<and> err \<noteq> DatabaseNetworkNotFoundError"
  then have g: "replyGetNetwork c p nid = Inl err" and n: "err \<noteq> DatabaseNetworkNotFoundError"
    by simp_all
  show "fst (deleteRefresh nid p c) = (RNil, [], Some err)"
    by (simp add: deleteRefresh_get_error [OF assms g n])
  show "fst (WaitForStateContext (deleteStateConf nid) (Suc w) p c) = Inl err"
    by (simp only: wait_get_error [OF assms g n] fst_conv)
next
  fix net
  assume g: "replyGetNetwork c p nid = Inr net"
  show "fst (deleteRefresh nid p c) = (RResp resp, ''deleting'', None)"
    by (simp add: deleteRefresh_deleting [OF assms g])
  show "''deleting'' \<notin> set (Target (deleteStateConf nid))"
    by (simp add: conf_fields)
  show "WaitForStateContext (deleteStateConf nid) (Suc w) p c =
      WaitForStateContext (deleteStateConf nid) w (Suc p) (snd (deleteRefresh nid p c))"
    by (simp only: wait_deleting [OF assms g] deleteRefresh_deleting [OF assms g] snd_conv)
next
  show "fst (resourceNetworkDelete window d m) =
           (case fst (WaitForStateContext (deleteStateConf (ident d)) window 0
                        (overwriteRegion d m)) of
              Inl err \<Rightarrow>
                [DiagErrorf ''error waiting for network (%s) to be deleted: %s''
                   [AStr (ident d), AErr err]]
            | Inr r \<Rightarrow> [])"
    by (rule resourceNetworkDelete_diag)
qed

text \<open>
  The three cases on the concrete backend: its third poll (number 2) finds the network
  gone, a backend whose existence query fails aborts the first poll, and its first poll
  finds the network and, with room for one poll only, ends in the timeout.
\<close>

theorem deleteRefresh_transitions_witness:
  "fst (deleteRefresh ''net-1'' 2 exampleClient) = (RResp \<lparr>Result = ''success''\<rparr>, ''deleted'', None)
   \<and> fst (WaitForStateContext (deleteStateConf ''net-1'') (Suc 0) 2 exampleClient)
       = Inr (RResp \<lparr>Result = ''success''\<rparr>)
   \<and> fst (deleteRefresh ''net-1'' 0
            (exampleClient\<lparr>replyGetNetwork := \<lambda>poll nid. Inl (BackendError ''unavailable'')\<rparr>))
       = (RNil, [], Some (BackendError ''unavailable''))
   \<and> fst (WaitForStateContext (deleteStateConf ''net-1'') (Suc 0) 0
            (exampleClient\<lparr>replyGetNetwork := \<lambda>poll nid. Inl (BackendError ''unavailable'')\<rparr>))
       = Inl (BackendError ''unavailable'')
   \<and> fst (deleteRefresh ''net-1'' 0 exampleClient) = (RResp \<lparr>Result = ''success''\<rparr>, ''deleting'', None)
   \<and> fst (resourceNetworkDelete 1 exampleData exampleClient) =
        [DiagErrorf ''error waiting for network (%s) to be deleted: %s''
           [AStr ''net-1'', AErr TimeoutError]]"
  using deleteRefresh_transitions [where c = exampleClient and p = 2 and nid = "''net-1''"
      and resp = "\<lparr>Result = ''success''\<rparr>" and w = 0 and window = 0 and d = exampleData
      and m = exampleClient]
    deleteRefresh_transitions [where c = "exampleClient\<lparr>replyGetNetwork := \<lambda>poll nid. Inl (BackendError ''unavailable'')\<rparr>"
      and p = 0 and nid = "''net-1''"
      and resp = "\<lparr>Result = ''success''\<rparr>" and w = 0 and window = 0 and d = exampleData
      and m = exampleClient]
    deleteRefresh_transitions [where c = exampleClient and p = 0 and nid = "''net-1''"
      and resp = "\<lparr>Result = ''success''\<rparr>" and w = 0 and window = 1 and d = exampleData
      and m = exampleClient]
  by (simp add: exampleClient_def exampleData_def exampleAttrs_def overwriteRegion_def
      GetOk_region_def conf_fields deleteRefresh_def DeleteNetwork_def GetNetwork_def sent_def)

subsection \<open>Success on the N-th poll\<close>

text \<open>
  C4. Let every delete request of the first \<open>N\<close> polls be answered with the result
  \<^verbatim>\<open>success\<close>, the existence query find the network in the first \<open>N - 1\<close> polls and
  answer "not found" in the \<open>N\<close>-th (\<open>N \<ge> 1\<close>; polls are numbered from 0 in the
  model). Then a delete whose window has room for \<open>N\<close> polls reports success, having sent
  exactly \<open>N\<close> times the delete request and the existence query, that is after exactly
  \<open>N\<close> polls; and a delete cut short before the \<open>N\<close>-th poll does not report
  success.
\<close>

theorem resourceNetworkDelete_success_on_Nth_poll:
  assumes N: "1 \<le> N"
    and del: "\<forall>i<N. \<exists>resp. replyDeleteNetwork m i (ident d) = Inr resp \<and> Result resp = ''success''"
    and found: "\<forall>i<N - 1. \<exists>net. replyGetNetwork m i (ident d) = Inr net"
    and gone: "replyGetNetwork m (N - 1) (ident d) = Inl DatabaseNetworkNotFoundError"
  shows "(N \<le> window \<longrightarrow>
            fst (resourceNetworkDelete window d m) = []
          \<and> calls (snd (snd (resourceNetworkDelete window d m))) =
              calls m @ concat (replicate N [CallDeleteNetwork (ident d), CallGetNetwork (ident d)]))
       \<and> (window < N \<longrightarrow> fst (resourceNetworkDelete window d m) \<noteq> [])"
proof (intro conjI impI)
  let ?nid = "ident d"
  let ?c = "overwriteRegion d m"
  let ?conf = "deleteStateConf ?nid"
  let ?block = "[CallDeleteNetwork ?nid, CallGetNetwork ?nid]"
  define k where "k = N - 1"
  have Nk: "N = Suc k" using N by (simp add: k_def)
  have pending: "\<forall>i. 0 \<le> i \<and> i < 0 + k \<longrightarrow>
      (\<exists>resp. replyDeleteNetwork ?c i ?nid = Inr resp \<and> Result resp = ''success'')
      \<and> (\<exists>net. replyGetNetwork ?c i ?nid = Inr net)"
    using del found by (simp add: overwriteRegion_fields Nk)
  let ?ck = "?c\<lparr>calls := calls ?c @ concat (replicate k ?block)\<rparr>"
  from del obtain resp where
    resp: "replyDeleteNetwork ?ck k ?nid = Inr resp" "Result resp = ''success''"
    by (auto simp: overwriteRegion_fields Nk)
  have gone': "replyGetNetwork ?ck k ?nid = Inl DatabaseNetworkNotFoundError"
    using gone by (simp add: overwriteRegion_fields k_def)
  {
    assume "N \<le> window"
    then obtain w where window: "window = k + Suc w"
      using Nk by (metis add_Suc_right le_Suc_ex add_Suc)
    have run: "WaitForStateContext ?conf window 0 ?c =
        (Inr (RResp resp), sent (sent ?ck (CallDeleteNetwork ?nid)) (CallGetNetwork ?nid))"
      unfolding window
      by (simp only: wait_deleting_run [OF pending] wait_deleted [OF resp gone'] add_0)
    show "fst (resourceNetworkDelete window d m) = []"
      by (simp add: resourceNetworkDelete_diag run)
    have "calls (snd (snd (resourceNetworkDelete window d m))) =
        (calls m @ concat (replicate k ?block)) @ ?block"
      by (simp add: resourceNetworkDelete_calls run sent_def overwriteRegion_fields)
    then show "calls (snd (snd (resourceNetworkDelete window d m))) =
        calls m @ concat (replicate N ?block)"
      by (simp only: Nk append_assoc concat_replicate_snoc)
  }
  {
    assume "window < N"
    then have short: "window \<le> k" using Nk by simp
    have "\<forall>i. 0 \<le> i \<and> i < 0 + window \<longrightarrow>
        (\<exists>resp. replyDeleteNetwork ?c i ?nid = Inr resp \<and>
           (Result resp = ''success'' \<longrightarrow> (\<exists>net. replyGetNetwork ?c i ?nid = Inr net)))"
      using pending short by (metis add_0 less_le_trans)
    then have "fst (WaitForStateContext ?conf window 0 ?c) = Inl TimeoutError"
      by (rule wait_timeout)
    then show "fst (resourceNetworkDelete window d m) \<noteq> []"
      by (simp add: resourceNetworkDelete_diag)
  }
qed

text \<open>
  On the concrete backend \<open>N\<close> is 3: with room for five polls the delete succeeds after
  three, with room for two it fails.
\<close>

theorem resourceNetworkDelete_success_on_Nth_poll_witness:
  "fst (resourceNetworkDelete 5 exampleData exampleClient) = []
   \<and> calls (snd (snd (resourceNetworkDelete 5 exampleData exampleClient))) =
       [CallDeleteNetwork ''net-1'', CallGetNetwork ''net-1'',
        CallDeleteNetwork ''net-1'', CallGetNetwork ''net-1'',
        CallDeleteNetwork ''net-1'', CallGetNetwork ''net-1'']
   \<and> fst (resourceNetworkDelete 2 exampleData exampleClient) \<noteq> []"
proof -
  have N: "1 \<le> (3::nat)" by simp
  have del: "\<forall>i<3. \<exists>resp. replyDeleteNetwork exampleClient i (ident exampleData) = Inr resp
      \<and> Result resp = ''success''"
    by (simp add: exampleClient_def)
  have found: "\<forall>i<3 - 1. \<exists>net. replyGetNetwork exampleClient i (ident exampleData) = Inr net"
    by (simp add: exampleClient_def)
  have gone: "replyGetNetwork exampleClient (3 - 1) (ident exampleData)
      = Inl DatabaseNetworkNotFoundError"
    by (simp add: exampleClient_def)
  have ident: "ident exampleData = ''net-1''" by (simp add: exampleData_def)
  have calls: "calls exampleClient = []" by (simp add: exampleClient_def)
  show ?thesis
    using resourceNetworkDelete_success_on_Nth_poll [OF N del found gone, of 5]
      resourceNetworkDelete_success_on_Nth_poll [OF N del found gone, of 2]
    by (simp add: ident calls numeral_3_eq_3)
qed

subsection \<open>Timeout\<close>

text \<open>
  C5, as the code has it. If no existence query of the polls inside the window answers
  "not found", the delete handler never reports success: it returns its error
  diagnostic. The error in it is the timeout when nothing aborts the polling, that is when
  every delete request gets a reply and the existence query that follows a \<^verbatim>\<open>success\<close>
  finds the network.
\<close>

theorem resourceNetworkDelete_no_success_without_not_found:
  assumes "\<forall>i<window. replyGetNetwork m i (ident d) \<noteq> Inl DatabaseNetworkNotFoundError"
  shows "(\<exists>err. fst (resourceNetworkDelete window d m) =
            [DiagErrorf ''error waiting for network (%s) to be deleted: %s''
               [AStr (ident d), AErr err]])
       \<and> ((\<forall>i<window. \<exists>resp. replyDeleteNetwork m i (ident d) = Inr resp \<and>
              (Result resp = ''success'' \<longrightarrow> (\<exists>net. replyGetNetwork m i (ident d) = Inr net)))
            \<longrightarrow> fst (resourceNetworkDelete window d m) =
                  [DiagErrorf ''error waiting for network (%s) to be deleted: %s''
                     [AStr (ident d), AErr TimeoutError]])"
proof (intro conjI impI)
  let ?c = "overwriteRegion d m"
  have "\<forall>i. 0 \<le> i \<and> i < 0 + window \<longrightarrow>
      replyGetNetwork ?c i (ident d) \<noteq> Inl DatabaseNetworkNotFoundError"
    using assms by (simp add: overwriteRegion_fields)
  then have "\<exists>err. fst (WaitForStateContext (deleteStateConf (ident d)) window 0 ?c) = Inl err"
    by (rule wait_no_success)
  then obtain err where
    "fst (WaitForStateContext (deleteStateConf (ident d)) window 0 ?c) = Inl err" ..
  then show "\<exists>err. fst (resourceNetworkDelete window d m) =
            [DiagErrorf ''error waiting for network (%s) to be deleted: %s''
               [AStr (ident d), AErr err]]"
    by (simp add: resourceNetworkDelete_diag)
next
  let ?c = "overwriteRegion d m"
  assume "\<forall>i<window. \<exists>resp. replyDeleteNetwork m i (ident d) = Inr resp \<and>
      (Result resp = ''success'' \<longrightarrow> (\<exists>net. replyGetNetwork m i (ident d) = Inr net))"
  then have "\<forall>i. 0 \<le> i \<and> i < 0 + window \<longrightarrow>
      (\<exists>resp. replyDeleteNetwork ?c i (ident d) = Inr resp \<and>
         (Result resp = ''success'' \<longrightarrow> (\<exists>net. replyGetNetwork ?c i (ident d) = Inr net)))"
    by (simp add: overwriteRegion_fields)
  then have "fst (WaitForStateContext (deleteStateConf (ident d)) window 0 ?c) = Inl TimeoutError"
    by (rule wait_timeout)
  then show "fst (resourceNetworkDelete window d m) =
      [DiagErrorf ''error waiting for network (%s) to be deleted: %s''
         [AStr (ident d), AErr TimeoutError]]"
    by (simp add: resourceNetworkDelete_diag)
qed

text \<open>
  The concrete backend still has the network in its first two polls: a window of two
  polls ends in the timeout.
\<close>

theorem resourceNetworkDelete_no_success_without_not_found_witness:
  "fst (resourceNetworkDelete 2 exampleData exampleClient) =
     [DiagErrorf ''error waiting for network (%s) to be deleted: %s''
        [AStr ''net-1'', AErr TimeoutError]]"
proof -
  have never: "\<forall>i<2. replyGetNetwork exampleClient i (ident exampleData)
      \<noteq> Inl DatabaseNetworkNotFoundError"
    by (simp add: exampleClient_def)
  have pending: "\<forall>i<2. \<exists>resp. replyDeleteNetwork exampleClient i (ident exampleData) = Inr resp \<and>
      (Result resp = ''success'' \<longrightarrow>
         (\<exists>net. replyGetNetwork exampleClient i (ident exampleData) = Inr net))"
    by (simp add: exampleClient_def)
  have ident: "ident exampleData = ''net-1''" by (simp add: exampleData_def)
  show ?thesis
    using resourceNetworkDelete_no_success_without_not_found [OF never] pending
    by (simp add: ident)
qed

text \<open>
  C5 as stated fails. Against a backend whose existence query fails with another error,
  no existence query answers "not found", and the delete handler reports that error in
  its first poll, not the timeout.
\<close>

theorem resourceNetworkDelete_backend_error_not_timeout:
  "replyGetNetwork
      (exampleClient\<lparr>replyGetNetwork := \<lambda>poll nid. Inl (BackendError ''unavailable'')\<rparr>)
      0 ''net-1'' \<noteq> Inl DatabaseNetworkNotFoundError
   \<and> replyGetNetwork
      (exampleClient\<lparr>replyGetNetwork := \<lambda>poll nid. Inl (BackendError ''unavailable'')\<rparr>)
      1 ''net-1'' \<noteq> Inl DatabaseNetworkNotFoundError
   \<and> fst (resourceNetworkDelete 2 exampleData
        (exampleClient\<lparr>replyGetNetwork := \<lambda>poll nid. Inl (BackendError ''unavailable'')\<rparr>)) =
       [DiagErrorf ''error waiting for network (%s) to be deleted: %s''
          [AStr ''net-1'', AErr (BackendError ''unavailable'')]]
   \<and> fst (resourceNetworkDelete 2 exampleData
        (exampleClient\<lparr>replyGetNetwork := \<lambda>poll nid. Inl (BackendError ''unavailable'')\<rparr>)) \<noteq>
       [DiagErrorf ''error waiting for network (%s) to be deleted: %s''
          [AStr ''net-1'', AErr TimeoutError]]"
  by (simp add: run_defs Let_def eval_nat_numeral)

subsection \<open>Repeating the delete request\<close>

text \<open>
  C6, as the code has it. A poll whose delete request is answered with a result other
  than \<^verbatim>\<open>success\<close> sends nothing else and returns the state \<^verbatim>\<open>exists\<close>, which is
  pending, so the poller runs the closure again and the delete request is sent again. A
  delete operation whose first \<open>k\<close> delete requests are answered so, and whose next one is
  answered with \<^verbatim>\<open>success\<close> and followed by an existence query that answers "not
  found", reports success having sent the delete request \<open>k + 1\<close> times and then the
  existence query once.
\<close>

theorem resourceNetworkDelete_retries_delete_while_exists:
  "(replyDeleteNetwork c p nid = Inr r \<and> Result r \<noteq> ''success'' \<longrightarrow>
      deleteRefresh nid p c = ((RResp r, ''exists'', None), sent c (CallDeleteNetwork nid))
    \<and> ''exists'' \<in> set (Pending (deleteStateConf nid))
    \<and> WaitForStateContext (deleteStateConf nid) (Suc w) p c =
        WaitForStateContext (deleteStateConf nid) w (Suc p) (sent c (CallDeleteNetwork nid)))
   \<and> ((\<forall>i<k. \<exists>resp. replyDeleteNetwork m i (ident d) = Inr resp \<and> Result resp \<noteq> ''success'')
        \<and> replyDeleteNetwork m k (ident d) = Inr resp \<and> Result resp = ''success''
        \<and> replyGetNetwork m k (ident d) = Inl DatabaseNetworkNotFoundError
        \<and> k < window \<longrightarrow>
      fst (resourceNetworkDelete window d m) = []
    \<and> calls (snd (snd (resourceNetworkDelete window d m))) =
        calls m @ replicate (Suc k) (CallDeleteNetwork (ident d)) @ [CallGetNetwork (ident d)])"
proof (intro conjI impI)
  assume h: "replyDeleteNetwork c p nid = Inr r \<and> Result r \<noteq> ''success''"
  then have del: "replyDeleteNetwork c p nid = Inr r" and res: "Result r \<noteq> ''success''"
    by simp_all
  show "deleteRefresh nid p c = ((RResp r, ''exists'', None), sent c (CallDeleteNetwork nid))"
    by (rule deleteRefresh_exists [OF del res])
  show "''exists'' \<in> set (Pending (deleteStateConf nid))"
    by (simp add: conf_fields)
  show "WaitForStateContext (deleteStateConf nid) (Suc w) p c =
      WaitForStateContext (deleteStateConf nid) w (Suc p) (sent c (CallDeleteNetwork nid))"
    by (rule wait_exists [OF del res])
next
  let ?nid = "ident d"
  let ?c = "overwriteRegion d m"
  let ?ck = "?c\<lparr>calls := calls ?c @ replicate k (CallDeleteNetwork ?nid)\<rparr>"
  assume h: "(\<forall>i<k. \<exists>resp. replyDeleteNetwork m i (ident d) = Inr resp \<and> Result resp \<noteq> ''success'')
        \<and> replyDeleteNetwork m k (ident d) = Inr resp \<and> Result resp = ''success''
        \<and> replyGetNetwork m k (ident d) = Inl DatabaseNetworkNotFoundError
        \<and> k < window"
  then have retried: "\<forall>i. 0 \<le> i \<and> i < 0 + k \<longrightarrow>
      (\<exists>resp. replyDeleteNetwork ?c i ?nid = Inr resp \<and> Result resp \<noteq> ''success'')"
    by (simp add: overwriteRegion_fields)
  from h have del: "replyDeleteNetwork ?ck k ?nid = Inr resp" and res: "Result resp = ''success''"
    and gone: "replyGetNetwork ?ck k ?nid = Inl DatabaseNetworkNotFoundError"
    by (simp_all add: overwriteRegion_fields)
  from h obtain w where window: "window = k + Suc w"
    by (metis less_iff_Suc_add add_Suc_right)
  have run: "WaitForStateContext (deleteStateConf ?nid) window 0 ?c =
      (Inr (RResp resp), sent (sent ?ck (CallDeleteNetwork ?nid)) (CallGetNetwork ?nid))"
    unfolding window
    by (simp only: wait_exists_run [OF retried] wait_deleted [OF del res gone] add_0)
  show "fst (resourceNetworkDelete window d m) = []"
    by (simp add: resourceNetworkDelete_diag run)
  have "calls (snd (snd (resourceNetworkDelete window d m))) =
      (calls m @ replicate k (CallDeleteNetwork ?nid)) @ [CallDeleteNetwork ?nid, CallGetNetwork ?nid]"
    by (simp add: resourceNetworkDelete_calls run sent_def overwriteRegion_fields)
  then show "calls (snd (snd (resourceNetworkDelete window d m))) =
      calls m @ replicate (Suc k) (CallDeleteNetwork ?nid) @ [CallGetNetwork ?nid]"
    by (simp add: replicate_append_same)
qed

text \<open>
  A backend that answers the first two delete requests with \<^verbatim>\<open>pending\<close> and the third
  with \<^verbatim>\<open>success\<close>.
\<close>

theorem resourceNetworkDelete_retries_delete_while_exists_witness:
  "deleteRefresh ''net-1'' 0
      (exampleClient\<lparr>replyDeleteNetwork :=
         \<lambda>poll nid. Inr \<lparr>Result = (if poll < 2 then ''pending'' else ''success'')\<rparr>,
       replyGetNetwork := \<lambda>poll nid. Inl DatabaseNetworkNotFoundError\<rparr>) =
     ((RResp \<lparr>Result = ''pending''\<rparr>, ''exists'', None),
      sent (exampleClient\<lparr>replyDeleteNetwork :=
         \<lambda>poll nid. Inr \<lparr>Result = (if poll < 2 then ''pending'' else ''success'')\<rparr>,
       replyGetNetwork := \<lambda>poll nid. Inl DatabaseNetworkNotFoundError\<rparr>)
        (CallDeleteNetwork ''net-1''))
   \<and> fst (resourceNetworkDelete 5 exampleData
      (exampleClient\<lparr>replyDeleteNetwork :=
         \<lambda>poll nid. Inr \<lparr>Result = (if poll < 2 then ''pending'' else ''success'')\<rparr>,
       replyGetNetwork := \<lambda>poll nid. Inl DatabaseNetworkNotFoundError\<rparr>)) = []
   \<and> calls (snd (snd (resourceNetworkDelete 5 exampleData
      (exampleClient\<lparr>replyDeleteNetwork :=
         \<lambda>poll nid. Inr \<lparr>Result = (if poll < 2 then ''pending'' else ''success'')\<rparr>,
       replyGetNetwork := \<lambda>poll nid. Inl DatabaseNetworkNotFoundError\<rparr>)))) =
      [CallDeleteNetwork ''net-1'', CallDeleteNetwork ''net-1'', CallDeleteNetwork ''net-1'',
       CallGetNetwork ''net-1'']"
proof -
  let ?m = "exampleClient\<lparr>replyDeleteNetwork :=
         \<lambda>poll nid. Inr \<lparr>Result = (if poll < 2 then ''pending'' else ''success'')\<rparr>,
       replyGetNetwork := \<lambda>poll nid. Inl DatabaseNetworkNotFoundError\<rparr>"
  have here: "replyDeleteNetwork ?m 0 ''net-1'' = Inr \<lparr>Result = ''pending''\<rparr>
      \<and> Result \<lparr>Result = ''pending''\<rparr> \<noteq> ''success''"
    by simp
  have run: "(\<forall>i<2. \<exists>resp. replyDeleteNetwork ?m i (ident exampleData) = Inr resp
          \<and> Result resp \<noteq> ''success'')
      \<and> replyDeleteNetwork ?m 2 (ident exampleData) = Inr \<lparr>Result = ''success''\<rparr>
      \<and> Result \<lparr>Result = ''success''\<rparr> = ''success''
      \<and> replyGetNetwork ?m 2 (ident exampleData) = Inl DatabaseNetworkNotFoundError
      \<and> (2::nat) < 5"
    by simp
  have ident: "ident exampleData = ''net-1''" by (simp add: exampleData_def)
  have calls: "calls exampleClient = []" by (simp add: exampleClient_def)
  note retry = resourceNetworkDelete_retries_delete_while_exists
        [where c = ?m and p = 0 and nid = "''net-1''" and r = "\<lparr>Result = ''pending''\<rparr>"
          and m = ?m and d = exampleData and k = 2 and window = 5
          and resp = "\<lparr>Result = ''success''\<rparr>" and w = 0]
  from retry [THEN conjunct1, THEN mp, OF here, THEN conjunct1]
  have poll: "deleteRefresh ''net-1'' 0 ?m =
      ((RResp \<lparr>Result = ''pending''\<rparr>, ''exists'', None), sent ?m (CallDeleteNetwork ''net-1''))" .
  from retry [THEN conjunct2, THEN mp, OF run]
  have whole: "fst (resourceNetworkDelete 5 exampleData ?m) = []
      \<and> calls (snd (snd (resourceNetworkDelete 5 exampleData ?m))) =
          [CallDeleteNetwork ''net-1'', CallDeleteNetwork ''net-1'', CallDeleteNetwork ''net-1'',
           CallGetNetwork ''net-1'']"
    by (simp add: ident calls numeral_2_eq_2)
  show ?thesis
    using poll whole by (intro conjI) (rule poll, simp_all only:)
qed

text \<open>
  C6 as stated fails. Against a backend that answers the first delete request with
  \<^verbatim>\<open>pending\<close> and the second with \<^verbatim>\<open>success\<close>, after which the network is gone, the
  delete operation succeeds and has sent the delete request twice.
\<close>

theorem resourceNetworkDelete_repeats_delete_request:
  "fst (resourceNetworkDelete 5 exampleData
          (exampleClient\<lparr>replyDeleteNetwork :=
             \<lambda>poll nid. Inr \<lparr>Result = (if poll = 0 then ''pending'' else ''success'')\<rparr>,
           replyGetNetwork := \<lambda>poll nid. Inl DatabaseNetworkNotFoundError\<rparr>)) = []
   \<and> calls (snd (snd (resourceNetworkDelete 5 exampleData
          (exampleClient\<lparr>replyDeleteNetwork :=
             \<lambda>poll nid. Inr \<lparr>Result = (if poll = 0 then ''pending'' else ''success'')\<rparr>,
           replyGetNetwork := \<lambda>poll nid. Inl DatabaseNetworkNotFoundError\<rparr>)))) =
       [CallDeleteNetwork ''net-1'', CallDeleteNetwork ''net-1'', CallGetNetwork ''net-1'']"
  by (simp add: run_defs Let_def eval_nat_numeral)

subsection \<open>Reading a network that is not listed\<close>

text \<open>
  C2 fails on the code when the list call succeeds and the network is not among the
  listed ones. With the identifier \<^verbatim>\<open>net-1\<close> in state and an empty list from the backend,
  \<^verbatim>\<open>resourceNetworkRead\<close> returns no error, keeps the identifier, and overwrites the
  computed fields with the zero values of \<^verbatim>\<open>civogo.Network{}\<close>. Only the other path, a
  list call that fails and returns no list, clears the identifier.
\<close>

theorem resourceNetworkRead_unlisted_keeps_ident:
  "fst (resourceNetworkRead exampleData (exampleClient\<lparr>replyListNetworks := (Some [], None)\<rparr>)) = []
   \<and> ident (fst (snd (resourceNetworkRead exampleData
         (exampleClient\<lparr>replyListNetworks := (Some [], None)\<rparr>)))) = ''net-1''
   \<and> current (fst (snd (resourceNetworkRead exampleData
         (exampleClient\<lparr>replyListNetworks := (Some [], None)\<rparr>)))) =
       exampleAttrs\<lparr>name := [], region := ''LON1'', label := [], default_attr := False,
                    cidr_v4 := [], nameservers_v4 := []\<rparr>
   \<and> ident (fst (snd (resourceNetworkRead exampleData
         (exampleClient\<lparr>replyListNetworks := (None, Some (BackendError ''not found''))\<rparr>)))) = []"
  by (simp add: resourceNetworkRead_def ListNetworks_def overwriteRegion_def GetOk_region_def
      sent_def setNetworkFields_def zeroNetwork_def SetId_def
      exampleClient_def exampleData_def exampleAttrs_def)

subsection \<open>Create, then read back\<close>

text \<open>
  C7, as the code has it. If the network and its default firewall are created, and the
  list call that follows succeeds and lists exactly one network with the new identifier,
  then the Create handler returns no error, stores the identifier, and writes
  \<^verbatim>\<open>name\<close>, \<^verbatim>\<open>label\<close>, \<^verbatim>\<open>default\<close>, \<^verbatim>\<open>cidr_v4\<close> and \<^verbatim>\<open>nameservers_v4\<close> exactly as
  that listed network has them. \<^verbatim>\<open>region\<close> is written from the client: the configured
  region when there is one, the client's own region otherwise. No other attribute
  changes.
\<close>

theorem resourceNetworkCreate_reads_back:
  assumes created: "replyCreateNetwork m (createConfigs d (overwriteRegion d m)) = Inr network"
    and firewall: "replyNewFirewall m
        \<lparr>fw_Name = nr_Label network @ ''-default'', fw_NetworkID = nr_ID network,
         fw_Region = Region (overwriteRegion d m)\<rparr> = None"
    and listed: "replyListNetworks m = (Some nets, None)"
    and member: "net \<in> set nets" "ID net = nr_ID network"
    and unique: "\<forall>n\<in>set nets. ID n = nr_ID network \<longrightarrow> n = net"
  shows "fst (resourceNetworkCreate parseError d m) = []
       \<and> ident (fst (snd (resourceNetworkCreate parseError d m))) = nr_ID network
       \<and> current (fst (snd (resourceNetworkCreate parseError d m))) =
           (current d)
             \<lparr>name := Name net,
              region := (if region (current d) \<noteq> [] then region (current d) else Region m),
              label := Label net,
              default_attr := Default net,
              cidr_v4 := CIDR net,
              nameservers_v4 := NameserversV4 net\<rparr>"
proof -
  let ?d1 = "SetId d (nr_ID network)"
  let ?c2 = "sent (sent (overwriteRegion d m)
        (CallCreateNetwork (createConfigs d (overwriteRegion d m))))
      (CallNewFirewall \<lparr>fw_Name = nr_Label network @ ''-default'',
         fw_NetworkID = nr_ID network, fw_Region = Region (overwriteRegion d m)\<rparr>)"
  have found: "findNetwork (ident ?d1) zeroNetwork nets = net"
    using findNetwork_unique [OF unique, of zeroNetwork] member by (auto simp: SetId_def)
  have "replyListNetworks ?c2 = (Some nets, None)"
    using listed by (simp add: sent_fields overwriteRegion_fields)
  then have "resourceNetworkRead ?d1 ?c2 =
      ([], setNetworkFields ?d1 (Region (overwriteRegion ?d1 ?c2))
             (findNetwork (ident ?d1) zeroNetwork nets),
       sent (overwriteRegion ?d1 ?c2) CallListNetworks)"
    by (simp add: resourceNetworkRead_listed)
  then have "resourceNetworkCreate parseError d m =
      ([], setNetworkFields ?d1 (Region (overwriteRegion ?d1 ?c2)) net,
       sent (overwriteRegion ?d1 ?c2) CallListNetworks)"
    by (simp only: resourceNetworkCreate_ok [OF created firewall] found)
  then show ?thesis
    by (simp add: setNetworkFields_def SetId_def overwriteRegion_SetId overwriteRegion_sent
        overwriteRegion_idem sent_fields overwriteRegion_fields)
qed

text \<open>
  On the concrete backend, for a new resource.
\<close>

theorem resourceNetworkCreate_reads_back_witness:
  "fst (resourceNetworkCreate (\<lambda>err. None) (exampleData\<lparr>ident := []\<rparr>) exampleClient) = []
   \<and> ident (fst (snd (resourceNetworkCreate (\<lambda>err. None) (exampleData\<lparr>ident := []\<rparr>)
        exampleClient))) = ''net-1''
   \<and> current (fst (snd (resourceNetworkCreate (\<lambda>err. None) (exampleData\<lparr>ident := []\<rparr>)
        exampleClient))) =
       exampleAttrs\<lparr>name := ''cust-mynet'', region := ''LON1'', label := ''mynet'',
                    default_attr := False, cidr_v4 := ''10.0.0.0/24'',
                    nameservers_v4 := [''8.8.8.8'']\<rparr>"
proof -
  let ?d = "exampleData\<lparr>ident := []\<rparr>"
  let ?network = "\<lparr>nr_ID = ''net-1'', nr_Label = ''mynet'', nr_Result = ''success''\<rparr>"
  have created: "replyCreateNetwork exampleClient
      (createConfigs ?d (overwriteRegion ?d exampleClient)) = Inr ?network"
    by (simp add: exampleClient_def exampleData_def exampleAttrs_def createConfigs_def Let_def)
  have firewall: "replyNewFirewall exampleClient
        \<lparr>fw_Name = nr_Label ?network @ ''-default'', fw_NetworkID = nr_ID ?network,
         fw_Region = Region (overwriteRegion ?d exampleClient)\<rparr> = None"
    by (simp add: exampleClient_def)
  have listed: "replyListNetworks exampleClient = (Some [exampleNetwork], None)"
    by (simp add: exampleClient_def)
  have member: "exampleNetwork \<in> set [exampleNetwork]" "ID exampleNetwork = nr_ID ?network"
    by (simp_all add: exampleNetwork_def)
  have unique: "\<forall>n\<in>set [exampleNetwork]. ID n = nr_ID ?network \<longrightarrow> n = exampleNetwork"
    by simp
  show ?thesis
    using resourceNetworkCreate_reads_back [OF created firewall listed member unique,
        of "\<lambda>err. None"]
    by (simp add: exampleNetwork_def exampleData_def exampleAttrs_def exampleClient_def)
qed

text \<open>
  C7 as stated fails for \<^verbatim>\<open>region\<close>: two clients whose backends give the same replies
  and list the same network, one with the region \<^verbatim>\<open>LON1\<close> and one with \<^verbatim>\<open>NYC1\<close>, leave
  different regions in state. The region written is the client's, not a value of the
  backend's reply.
\<close>

theorem resourceNetworkCreate_region_from_client:
  "replyListNetworks (exampleClient\<lparr>Region := ''NYC1''\<rparr>) = replyListNetworks exampleClient
   \<and> region (current (fst (snd (resourceNetworkCreate (\<lambda>err. None) (exampleData\<lparr>ident := []\<rparr>)
        exampleClient)))) = ''LON1''
   \<and> region (current (fst (snd (resourceNetworkCreate (\<lambda>err. None) (exampleData\<lparr>ident := []\<rparr>)
        (exampleClient\<lparr>Region := ''NYC1''\<rparr>))))) = ''NYC1''"
  by (simp add: resourceNetworkCreate_def CreateNetwork_def createDefaultFirewall_def
      NewFirewall_def createConfigs_def resourceNetworkRead_def ListNetworks_def
      overwriteRegion_def GetOk_region_def sent_def setNetworkFields_def SetId_def Let_def
      exampleClient_def exampleData_def exampleAttrs_def exampleNetwork_def)

subsection \<open>The default firewall\<close>

text \<open>
  C8. When the backend creates the network, the Create handler next asks for a firewall
  named after the label of the created network with \<^verbatim>\<open>-default\<close> appended, attached to
  the identifier of the created network, in the client's region. When that request
  fails, the handler returns an error diagnostic, and the identifier of the new network
  is already stored in the resource data it leaves behind.
\<close>

theorem resourceNetworkCreate_default_firewall:
  assumes created: "replyCreateNetwork m (createConfigs d (overwriteRegion d m)) = Inr network"
  shows "(\<exists>rest. calls (snd (snd (resourceNetworkCreate parseError d m))) =
            calls m @
            [CallCreateNetwork (createConfigs d (overwriteRegion d m)),
             CallNewFirewall
               \<lparr>fw_Name = nr_Label network @ ''-default'', fw_NetworkID = nr_ID network,
                fw_Region = Region (overwriteRegion d m)\<rparr>] @ rest)
       \<and> (\<forall>err. replyNewFirewall m
               \<lparr>fw_Name = nr_Label network @ ''-default'', fw_NetworkID = nr_ID network,
                fw_Region = Region (overwriteRegion d m)\<rparr> = Some err \<longrightarrow>
             fst (resourceNetworkCreate parseError d m) =
               [DiagErrorf ''[ERR] failed to create a new firewall for the network %s: %s''
                  [AStr (label (current d)), AErr err]]
           \<and> ident (fst (snd (resourceNetworkCreate parseError d m))) = nr_ID network)"
proof (intro conjI allI impI)
  let ?fwc = "\<lparr>fw_Name = nr_Label network @ ''-default'', fw_NetworkID = nr_ID network,
                fw_Region = Region (overwriteRegion d m)\<rparr>"
  show "\<exists>rest. calls (snd (snd (resourceNetworkCreate parseError d m))) =
      calls m @ [CallCreateNetwork (createConfigs d (overwriteRegion d m)),
                 CallNewFirewall ?fwc] @ rest"
    by (rule resourceNetworkCreate_calls_created [OF created])
next
  fix err
  assume failed: "replyNewFirewall m
      \<lparr>fw_Name = nr_Label network @ ''-default'', fw_NetworkID = nr_ID network,
       fw_Region = Region (overwriteRegion d m)\<rparr> = Some err"
  have "resourceNetworkCreate parseError d m =
      ([DiagErrorf ''[ERR] failed to create a new firewall for the network %s: %s''
          [AStr (label (current (SetId d (nr_ID network)))), AErr err]],
       SetId d (nr_ID network),
       sent (sent (overwriteRegion d m)
          (CallCreateNetwork (createConfigs d (overwriteRegion d m))))
          (CallNewFirewall \<lparr>fw_Name = nr_Label network @ ''-default'',
             fw_NetworkID = nr_ID network, fw_Region = Region (overwriteRegion d m)\<rparr>))"
    using created failed
    by (simp add: resourceNetworkCreate_def CreateNetwork_def createDefaultFirewall_def
        NewFirewall_def overwriteRegion_fields sent_fields Let_def)
  then show "fst (resourceNetworkCreate parseError d m) =
      [DiagErrorf ''[ERR] failed to create a new firewall for the network %s: %s''
         [AStr (label (current d)), AErr err]]"
    and "ident (fst (snd (resourceNetworkCreate parseError d m))) = nr_ID network"
    by (simp_all add: SetId_def)
qed

text \<open>
  A backend that creates the network and refuses the firewall.
\<close>

theorem resourceNetworkCreate_default_firewall_witness:
  "calls (snd (snd (resourceNetworkCreate (\<lambda>err. None) (exampleData\<lparr>ident := []\<rparr>)
      (exampleClient\<lparr>replyNewFirewall := \<lambda>firewallConfig. Some (BackendError ''quota'')\<rparr>)))) =
     [CallCreateNetwork
        \<lparr>cfg_Label = ''mynet'', cfg_CIDRv4 = ''10.0.0.0/24'', cfg_Region = ''LON1'',
         cfg_NameserversV4 = [''1.1.1.1''], cfg_VLanConfig = None\<rparr>,
      CallNewFirewall
        \<lparr>fw_Name = ''mynet-default'', fw_NetworkID = ''net-1'', fw_Region = ''LON1''\<rparr>]
   \<and> fst (resourceNetworkCreate (\<lambda>err. None) (exampleData\<lparr>ident := []\<rparr>)
      (exampleClient\<lparr>replyNewFirewall := \<lambda>firewallConfig. Some (BackendError ''quota'')\<rparr>)) =
     [DiagErrorf ''[ERR] failed to create a new firewall for the network %s: %s''
        [AStr ''mynet'', AErr (BackendError ''quota'')]]
   \<and> ident (fst (snd (resourceNetworkCreate (\<lambda>err. None) (exampleData\<lparr>ident := []\<rparr>)
      (exampleClient\<lparr>replyNewFirewall := \<lambda>firewallConfig. Some (BackendError ''quota'')\<rparr>))))
     = ''net-1''"
proof -
  let ?d = "exampleData\<lparr>ident := []\<rparr>"
  let ?m = "exampleClient\<lparr>replyNewFirewall := \<lambda>firewallConfig. Some (BackendError ''quota'')\<rparr>"
  let ?network = "\<lparr>nr_ID = ''net-1'', nr_Label = ''mynet'', nr_Result = ''success''\<rparr>"
  have created: "replyCreateNetwork ?m (createConfigs ?d (overwriteRegion ?d ?m)) = Inr ?network"
    by (simp add: exampleClient_def exampleData_def exampleAttrs_def createConfigs_def Let_def)
  show ?thesis
    using resourceNetworkCreate_default_firewall [OF created, of "\<lambda>err. None"]
    by (simp add: resourceNetworkCreate_def CreateNetwork_def createDefaultFirewall_def
      NewFirewall_def createConfigs_def Get_nameservers_v4_def
      overwriteRegion_def GetOk_region_def sent_def SetId_def Let_def
      exampleClient_def exampleData_def exampleAttrs_def)
qed

subsection \<open>The VLAN configuration of the create request\<close>

text \<open>
  C9. The first request of the Create handler is the create request, and its
  \<^verbatim>\<open>VLanConfig\<close> is set, to the six VLAN attributes of the configuration, exactly when
  \<^verbatim>\<open>vlan_id\<close> is greater than 0; otherwise it is \<^verbatim>\<open>nil\<close> and the request carries no
  VLAN field. The other fields of the request are the label, \<^verbatim>\<open>cidr_v4\<close>, the client's
  region and the name servers of the configuration.
\<close>

theorem resourceNetworkCreate_vlan_config:
  "(\<exists>rest. calls (snd (snd (resourceNetworkCreate parseError d m))) =
      calls m @ CallCreateNetwork (createConfigs d (overwriteRegion d m)) # rest)
   \<and> cfg_VLanConfig (createConfigs d c) =
       (if 0 < vlan_id (current d)
        then Some \<lparr>VlanID = vlan_id (current d),
                   PhysicalInterface = vlan_physical_interface (current d),
                   CIDRv4 = vlan_cidr_v4 (current d),
                   GatewayIPv4 = vlan_gateway_ip_v4 (current d),
                   AllocationPoolV4Start = vlan_allocation_pool_v4_start (current d),
                   AllocationPoolV4End = vlan_allocation_pool_v4_end (current d)\<rparr>
        else None)
   \<and> (cfg_VLanConfig (createConfigs d c) \<noteq> None) = (0 < vlan_id (current d))
   \<and> cfg_Label (createConfigs d c) = label (current d)
   \<and> cfg_CIDRv4 (createConfigs d c) = cidr_v4 (current d)
   \<and> cfg_Region (createConfigs d c) = Region c
   \<and> cfg_NameserversV4 (createConfigs d c) = nameservers_v4 (current d)"
  using resourceNetworkCreate_first_call [of parseError d m]
  by (simp add: createConfigs_def Let_def expandStringList_Get)

subsection \<open>The requests of an update\<close>

text \<open>
  C10. When neither \<^verbatim>\<open>label\<close> nor \<^verbatim>\<open>nameservers_v4\<close> has changed, the only request of
  the Update handler is the list request of the read that ends it. A rename request
  among the requests of an update means that \<^verbatim>\<open>label\<close> changed, and an update request
  that \<^verbatim>\<open>nameservers_v4\<close> changed.
\<close>

theorem resourceNetworkUpdate_mutating_calls:
  "(\<not> HasChange_label d \<and> \<not> HasChange_nameservers_v4 d \<longrightarrow>
      calls (snd (snd (resourceNetworkUpdate d m))) = calls m @ [CallListNetworks])
   \<and> ((\<exists>lbl nid. CallRenameNetwork lbl nid \<in>
          set (drop (length (calls m)) (calls (snd (snd (resourceNetworkUpdate d m))))))
        \<longrightarrow> HasChange_label d)
   \<and> ((\<exists>nid nc. CallUpdateNetwork nid nc \<in>
          set (drop (length (calls m)) (calls (snd (snd (resourceNetworkUpdate d m))))))
        \<longrightarrow> HasChange_nameservers_v4 d)"
  by (auto simp add: resourceNetworkUpdate_calls updateNameservers_calls sent_fields
      overwriteRegion_fields split: if_splits)

text \<open>
  An update that changes nothing, one that renames, and one that changes the name
  servers, on the concrete backend.
\<close>

theorem resourceNetworkUpdate_mutating_calls_witness:
  "calls (snd (snd (resourceNetworkUpdate exampleData exampleClient))) = [CallListNetworks]
   \<and> calls (snd (snd (resourceNetworkUpdate
        (exampleData\<lparr>current := exampleAttrs\<lparr>label := ''renamed''\<rparr>\<rparr>) exampleClient))) =
       [CallRenameNetwork ''renamed'' ''net-1'', CallListNetworks]
   \<and> HasChange_label (exampleData\<lparr>current := exampleAttrs\<lparr>label := ''renamed''\<rparr>\<rparr>)
   \<and> calls (snd (snd (resourceNetworkUpdate
        (exampleData\<lparr>current := exampleAttrs\<lparr>nameservers_v4 := [''9.9.9.9'']\<rparr>\<rparr>) exampleClient))) =
       [CallUpdateNetwork ''net-1''
          \<lparr>cfg_Label = [], cfg_CIDRv4 = [], cfg_Region = ''LON1'',
           cfg_NameserversV4 = [''9.9.9.9''], cfg_VLanConfig = None\<rparr>,
        CallListNetworks]
   \<and> HasChange_nameservers_v4
        (exampleData\<lparr>current := exampleAttrs\<lparr>nameservers_v4 := [''9.9.9.9'']\<rparr>\<rparr>)"
proof -
  let ?dl = "exampleData\<lparr>current := exampleAttrs\<lparr>label := ''renamed''\<rparr>\<rparr>"
  let ?dn = "exampleData\<lparr>current := exampleAttrs\<lparr>nameservers_v4 := [''9.9.9.9'']\<rparr>\<rparr>"
  have same: "\<not> HasChange_label exampleData \<and> \<not> HasChange_nameservers_v4 exampleData"
    by (simp add: HasChange_label_def HasChange_nameservers_v4_def exampleData_def)
  have log_l: "calls (snd (snd (resourceNetworkUpdate ?dl exampleClient))) =
      [CallRenameNetwork ''renamed'' ''net-1'', CallListNetworks]"
    by (simp add: resourceNetworkUpdate_calls updateNameservers_calls sent_fields
        overwriteRegion_fields HasChange_label_def HasChange_nameservers_v4_def
        exampleData_def exampleAttrs_def exampleClient_def)
  have log_n: "calls (snd (snd (resourceNetworkUpdate ?dn exampleClient))) =
      [CallUpdateNetwork ''net-1''
          \<lparr>cfg_Label = [], cfg_CIDRv4 = [], cfg_Region = ''LON1'',
           cfg_NameserversV4 = [''9.9.9.9''], cfg_VLanConfig = None\<rparr>,
        CallListNetworks]"
    by (simp add: resourceNetworkUpdate_calls updateNameservers_calls sent_fields
        overwriteRegion_fields HasChange_label_def HasChange_nameservers_v4_def
        exampleData_def exampleAttrs_def exampleClient_def)
  have empty: "calls exampleClient = []" by (simp add: exampleClient_def)
  show ?thesis
    using resourceNetworkUpdate_mutating_calls [of exampleData exampleClient] same
      resourceNetworkUpdate_mutating_calls [of ?dl exampleClient]
      resourceNetworkUpdate_mutating_calls [of ?dn exampleClient]
    by (simp add: log_l log_n empty)
qed

end
